theory Spec2Isabelle
  imports Complex_Main "HOL-Library.AList"
begin

section \<open>Data model of the notebook\<close>

text \<open>
  The notebook \<^verbatim>\<open>part2_modeling.ipynb\<close> defines two functions,
  \<^verbatim>\<open>extract_time_series_features\<close> and \<^verbatim>\<open>build_arima_model\<close>. Both are glue around
  pandas, numpy, statsmodels and matplotlib. The embedding keeps the control flow, the
  dictionary of derived columns, the error paths and the file effects of the notebook
  as HOL functions. The numerical routines of the libraries (rolling mean, quantiles,
  skewness, the autocorrelation function, model fitting, rendering) are fields of a
  record that every function of the model takes as its first argument; the structural
  library operations the properties depend on (offset windows, label lookup, frame
  construction, \<^verbatim>\<open>dropna\<close>, \<^verbatim>\<open>os.makedirs\<close>) are written out.
\<close>

text \<open>A float64 cell: not-a-number, or a numeric value of the carrier \<^typ>\<open>'a\<close>.\<close>

datatype 'a cell = NaN | Num 'a

text \<open>The exceptions the modelled calls can raise.\<close>

datatype error =
    ValueError
  | IndexError
  | KeyError
  | OutOfBoundsTimedelta
  | FileNotFoundError
  | FileExistsError
  | IsADirectoryError
  | NotADirectoryError
  | LibraryError

text \<open>
  A row index: a \<^verbatim>\<open>DatetimeIndex\<close> holds its timestamps as integer nanoseconds (as pandas
  stores them); any other index holds integer labels.
\<close>

datatype index = DatetimeIndex "int list" | OtherIndex "int list"

fun index_values :: "index \<Rightarrow> int list" where
  "index_values (DatetimeIndex ts) = ts"
| "index_values (OtherIndex ls) = ls"

text \<open>A column of the input table is numeric (float cells) or of some other dtype.\<close>

datatype 'a column = Numeric "'a cell list" | NonNumeric "string list"

text \<open>The input table: its index and its labelled columns, in column order.\<close>

record 'a data_frame =
  df_index :: index
  df_columns :: "(string \<times> 'a column) list"

text \<open>A table of derived features: every column is a float column.\<close>

record 'a feature_frame =
  ff_index :: index
  ff_columns :: "(string \<times> 'a cell list) list"

text \<open>
  \<^verbatim>\<open>data[column]\<close>: a Series when exactly one column carries the label, a DataFrame
  when the label is repeated.
\<close>

datatype 'a item = Series "'a column" | Frame

definition getitem :: "'a data_frame \<Rightarrow> string \<Rightarrow> 'a item" where
  "getitem data column =
     (case filter (\<lambda>p. fst p = column) (df_columns data) of
        [p] \<Rightarrow> Series (snd p)
      | _ \<Rightarrow> Frame)"

text \<open>\<^verbatim>\<open>pd.api.types.is_numeric_dtype\<close>: false for a non-numeric Series and for a DataFrame.\<close>

fun is_numeric_dtype :: "'a item \<Rightarrow> bool" where
  "is_numeric_dtype (Series (Numeric vs)) = True"
| "is_numeric_dtype (Series (NonNumeric vs)) = False"
| "is_numeric_dtype Frame = False"

fun item_values :: "'a item \<Rightarrow> 'a cell list" where
  "item_values (Series (Numeric vs)) = vs"
| "item_values (Series (NonNumeric vs)) = []"
| "item_values Frame = []"

section \<open>The library routines taken as parameters\<close>

text \<open>
  Each field stands for one library routine evaluated on the cells of one window:
  \<^verbatim>\<open>rolling(...).mean()\<close>, \<^verbatim>\<open>.std()\<close>, \<^verbatim>\<open>.min()\<close>, \<^verbatim>\<open>.max()\<close>, \<^verbatim>\<open>.median()\<close>,
  \<^verbatim>\<open>.quantile(q)\<close>, \<^verbatim>\<open>pd.Series(x).skew()\<close>, \<^verbatim>\<open>pd.Series(x).kurt()\<close>,
  \<^verbatim>\<open>acf(x, nlags=1, fft=False)\<close> (which may raise), the number of observations
  \<^verbatim>\<open>rolling(...).apply\<close> counts in a window before it calls the user function, and
  float subtraction. The field \<open>series_first\<close> is the subscript \<^verbatim>\<open>x[0]\<close> on the Series
  that \<^verbatim>\<open>apply\<close> passes for a window: pandas before version 3 reads an integer key on
  a datetime-indexed Series by position, pandas from version 3 on looks the key up as a
  label and raises \<^verbatim>\<open>KeyError\<close>.
\<close>

record 'a library =
  roll_mean :: "'a cell list \<Rightarrow> 'a cell"
  roll_std :: "'a cell list \<Rightarrow> 'a cell"
  roll_min :: "'a cell list \<Rightarrow> 'a cell"
  roll_max :: "'a cell list \<Rightarrow> 'a cell"
  roll_median :: "'a cell list \<Rightarrow> 'a cell"
  roll_quantile :: "rat \<Rightarrow> 'a cell list \<Rightarrow> 'a cell"
  series_skew :: "'a cell list \<Rightarrow> 'a cell"
  series_kurt :: "'a cell list \<Rightarrow> 'a cell"
  acf :: "'a cell list \<Rightarrow> error + 'a cell list"
  series_first :: "'a cell list \<Rightarrow> error + 'a cell"
  nobs :: "'a cell list \<Rightarrow> nat"
  fsub :: "'a cell \<Rightarrow> 'a cell \<Rightarrow> 'a cell"

section \<open>Offset windows: \<^verbatim>\<open>signal.rolling(f'{window_size}s')\<close>\<close>

text \<open>
  Timestamps and the width are held in signed 64-bit nanoseconds, and the scan below
  computes in that type: a result outside the range wraps around.
\<close>

definition int64_max :: int where
  "int64_max = 9223372036854775807"

definition wrap64 :: "int \<Rightarrow> int" where
  "wrap64 x = (x + 9223372036854775808) mod 18446744073709551616 - 9223372036854775808"

text \<open>
  pandas computes the bounds of a variable (offset) window by one forward scan: the
  window of row \<open>i\<close> ends after row \<open>i\<close> (the right end is closed), and its start is the
  first row at or after the previous start whose timestamp lies strictly inside the
  width; when there is none the window holds row \<open>i\<close> alone. The sign is \<open>-1\<close> for an
  index that runs backwards in time.
\<close>

fun window_start :: "int list \<Rightarrow> int \<Rightarrow> int \<Rightarrow> nat \<Rightarrow> nat" where
  "window_start ts w gs 0 = 0"
| "window_start ts w gs (Suc i) =
     (case find (\<lambda>j. 0 < wrap64 (wrap64 (ts ! j - wrap64 (ts ! Suc i - wrap64 (gs * w))) * gs))
             [window_start ts w gs i ..< Suc i] of
        Some j \<Rightarrow> j
      | None \<Rightarrow> Suc i)"

definition growth_sign :: "int list \<Rightarrow> int" where
  "growth_sign ts = (if ts \<noteq> [] \<and> last ts < hd ts then - 1 else 1)"

definition window_bounds :: "int list \<Rightarrow> int \<Rightarrow> (nat \<times> nat) list" where
  "window_bounds ts w =
     map (\<lambda>i. (window_start ts w (growth_sign ts) i, Suc i)) [0..<length ts]"

definition slice :: "nat \<times> nat \<Rightarrow> 'a list \<Rightarrow> 'a list" where
  "slice b xs = take (snd b - fst b) (drop (fst b) xs)"

text \<open>
  The rolling object for the window \<^verbatim>\<open>f'{window_size}s'\<close>: the list of windows, one
  per row. pandas raises a \<^verbatim>\<open>ValueError\<close> when the index of a non-empty signal is not
  datetime-like, and when a datetime index is neither non-decreasing nor
  non-increasing. The width is \<open>window_size\<close> seconds converted to nanoseconds; the
  conversion raises \<^verbatim>\<open>OutOfBoundsTimedelta\<close> when the nanoseconds do not fit the signed
  64-bit range, that is for \<open>window_size\<close> above 9223372036. The contract of the
  notebook takes a positive \<open>window_size\<close>; for other widths in range the model runs the
  same scan.
\<close>

definition width_in_bounds :: "int \<Rightarrow> bool" where
  "width_in_bounds window_size \<longleftrightarrow>
     - int64_max \<le> window_size * 1000000000 \<and> window_size * 1000000000 \<le> int64_max"

definition rolling :: "index \<Rightarrow> int \<Rightarrow> 'a list \<Rightarrow> error + 'a list list" where
  "rolling idx window_size signal =
     (case idx of
        OtherIndex ls \<Rightarrow>
          if ls \<noteq> [] then Inl ValueError
          else if width_in_bounds window_size then Inr []
          else Inl OutOfBoundsTimedelta
      | DatetimeIndex ts \<Rightarrow>
          if \<not> (sorted ts \<or> sorted (rev ts)) then Inl ValueError
          else if width_in_bounds window_size
          then Inr (map (\<lambda>b. slice b signal) (window_bounds ts (window_size * 1000000000)))
          else Inl OutOfBoundsTimedelta)"

text \<open>
  \<^verbatim>\<open>rolling(...).apply(func)\<close> with the default \<^verbatim>\<open>min_periods = 1\<close> of an offset window:
  the function is called on every window that has an observation, the other rows are
  NaN, and an exception of the function aborts the call.
\<close>

fun rolling_apply ::
  "'a library \<Rightarrow> ('a cell list \<Rightarrow> error + 'a cell) \<Rightarrow> 'a cell list list \<Rightarrow> error + 'a cell list"
where
  "rolling_apply lib func [] = Inr []"
| "rolling_apply lib func (w # ws) =
     (if 1 \<le> nobs lib w
      then (case func w of
              Inl e \<Rightarrow> Inl e
            | Inr v \<Rightarrow> (case rolling_apply lib func ws of
                           Inl e \<Rightarrow> Inl e
                         | Inr vs \<Rightarrow> Inr (v # vs)))
      else (case rolling_apply lib func ws of
              Inl e \<Rightarrow> Inl e
            | Inr vs \<Rightarrow> Inr (NaN # vs)))"

section \<open>\<^verbatim>\<open>extract_time_series_features\<close>\<close>

text \<open>\<^verbatim>\<open>a == b\<close> on floats: NaN equals nothing.\<close>

fun cell_eq :: "'a cell \<Rightarrow> 'a cell \<Rightarrow> bool" where
  "cell_eq (Num a) (Num b) = (a = b)"
| "cell_eq NaN b = False"
| "cell_eq (Num a) NaN = False"

text \<open>
  The nested function \<^verbatim>\<open>compute_autocorr\<close>. The window arrives as a Series of floats.
  The guard is evaluated left to right, so \<^verbatim>\<open>x[0]\<close> is read only when the window has
  two samples or more. The guard stands before the \<^verbatim>\<open>try\<close>: an exception of \<^verbatim>\<open>x[0]\<close>
  leaves the function. The bare \<^verbatim>\<open>except\<close> turns every exception of \<^verbatim>\<open>acf\<close> and of the
  subscript \<^verbatim>\<open>acf_result[1]\<close> into NaN.
\<close>

definition compute_autocorr :: "'a library \<Rightarrow> 'a cell list \<Rightarrow> error + 'a cell" where
  "compute_autocorr lib x =
     (if length x < 2 then Inr NaN
      else (case series_first lib x of
              Inl e \<Rightarrow> Inl e
            | Inr x0 \<Rightarrow>
                if list_all (\<lambda>v. cell_eq v x0) x then Inr NaN
                else (case acf lib x of
                        Inl e \<Rightarrow> Inr NaN
                      | Inr acf_result \<Rightarrow>
                          if 1 < length acf_result then Inr (acf_result ! 1) else Inr NaN)))"

text \<open>The names of the derived columns of one signal, in the order they are stored.\<close>

definition stat_names :: "string list" where
  "stat_names =
     [''mean'', ''std'', ''min'', ''max'', ''range'', ''median'',
      ''q25'', ''q75'', ''iqr'', ''skew'', ''kurt'', ''autocorr'']"

text \<open>
  The body of the loop for one numeric signal, up to the stores: the nine rolling
  objects are built with the same arguments, so one \<^const>\<open>rolling\<close> stands for them.
\<close>

definition signal_features ::
  "'a library \<Rightarrow> index \<Rightarrow> int \<Rightarrow> 'a cell list \<Rightarrow> error + (string \<times> 'a cell list) list"
where
  "signal_features lib idx window_size signal =
     (case rolling idx window_size signal of
        Inl e \<Rightarrow> Inl e
      | Inr ws \<Rightarrow>
          let rolling_mean = map (roll_mean lib) ws;
              rolling_std = map (roll_std lib) ws;
              rolling_min = map (roll_min lib) ws;
              rolling_max = map (roll_max lib) ws;
              rolling_range = map2 (fsub lib) rolling_max rolling_min;
              rolling_median = map (roll_median lib) ws;
              rolling_q25 = map (roll_quantile lib (1 / 4)) ws;
              rolling_q75 = map (roll_quantile lib (3 / 4)) ws;
              rolling_iqr = map2 (fsub lib) rolling_q75 rolling_q25
          in (case rolling_apply lib (\<lambda>x. Inr (series_skew lib x)) ws of
                Inl e \<Rightarrow> Inl e
              | Inr rolling_skew \<Rightarrow>
             (case rolling_apply lib (\<lambda>x. Inr (series_kurt lib x)) ws of
                Inl e \<Rightarrow> Inl e
              | Inr rolling_kurt \<Rightarrow>
             (case rolling_apply lib (compute_autocorr lib) ws of
                Inl e \<Rightarrow> Inl e
              | Inr rolling_autocorr \<Rightarrow>
                  Inr [(''mean'', rolling_mean), (''std'', rolling_std),
                       (''min'', rolling_min), (''max'', rolling_max),
                       (''range'', rolling_range), (''median'', rolling_median),
                       (''q25'', rolling_q25), (''q75'', rolling_q75),
                       (''iqr'', rolling_iqr), (''skew'', rolling_skew),
                       (''kurt'', rolling_kurt), (''autocorr'', rolling_autocorr)]))))"

text \<open>
  The twelve stores \<^verbatim>\<open>features[f'{column}_{stat}'] = ...\<close>. A Python dict keeps insertion
  order and overwrites in place, which is \<^const>\<open>AList.update\<close>.
\<close>

definition store_features ::
  "string \<Rightarrow> (string \<times> 'a cell list) list \<Rightarrow> (string \<times> 'a cell list) list
     \<Rightarrow> (string \<times> 'a cell list) list"
where
  "store_features column stats features =
     foldl (\<lambda>fs sv. AList.update (column @ ''_'' @ fst sv) (snd sv) fs) features stats"

text \<open>The loop over \<^verbatim>\<open>data.columns\<close>; non-numeric items are skipped.\<close>

fun process_columns ::
  "'a library \<Rightarrow> 'a data_frame \<Rightarrow> int \<Rightarrow> string list \<Rightarrow> (string \<times> 'a cell list) list
     \<Rightarrow> error + (string \<times> 'a cell list) list"
where
  "process_columns lib data window_size [] features = Inr features"
| "process_columns lib data window_size (column # rest) features =
     (if \<not> is_numeric_dtype (getitem data column)
      then process_columns lib data window_size rest features
      else (case signal_features lib (df_index data) window_size
                   (item_values (getitem data column)) of
              Inl e \<Rightarrow> Inl e
            | Inr stats \<Rightarrow>
                process_columns lib data window_size rest
                  (store_features column stats features)))"

text \<open>
  \<^verbatim>\<open>pd.DataFrame(features, index=data.index)\<close>: every stored Series already carries
  the index of the input, so the frame holds the columns as stored.
\<close>

definition features_df :: "'a library \<Rightarrow> 'a data_frame \<Rightarrow> int \<Rightarrow> error + 'a feature_frame" where
  "features_df lib data window_size =
     (case process_columns lib data window_size (map fst (df_columns data)) [] of
        Inl e \<Rightarrow> Inl e
      | Inr features \<Rightarrow> Inr \<lparr>ff_index = df_index data, ff_columns = features\<rparr>)"

text \<open>
  \<^verbatim>\<open>dropna()\<close>: the mask marks the rows whose cells are all defined (every row when
  there is no column), and the frame is indexed by the mask.
\<close>

definition notna_all :: "'a feature_frame \<Rightarrow> bool list" where
  "notna_all frame =
     map (\<lambda>i. list_all (\<lambda>c. snd c ! i \<noteq> NaN) (ff_columns frame))
       [0..<length (index_values (ff_index frame))]"

definition select_mask :: "'b list \<Rightarrow> bool list \<Rightarrow> 'b list" where
  "select_mask xs keep = map fst (filter snd (zip xs keep))"

fun select_index :: "index \<Rightarrow> bool list \<Rightarrow> index" where
  "select_index (DatetimeIndex ts) keep = DatetimeIndex (select_mask ts keep)"
| "select_index (OtherIndex ls) keep = OtherIndex (select_mask ls keep)"

definition dropna :: "'a feature_frame \<Rightarrow> 'a feature_frame" where
  "dropna frame =
     (let keep = notna_all frame
      in \<lparr>ff_index = select_index (ff_index frame) keep,
          ff_columns = map (\<lambda>c. (fst c, select_mask (snd c) keep)) (ff_columns frame)\<rparr>)"

definition extract_time_series_features ::
  "'a library \<Rightarrow> 'a data_frame \<Rightarrow> int \<Rightarrow> error + 'a feature_frame"
where
  "extract_time_series_features lib data window_size =
     (case features_df lib data window_size of
        Inl e \<Rightarrow> Inl e
      | Inr frame \<Rightarrow> Inr (dropna frame))"

section \<open>Notions used to state the properties\<close>




text \<open>The labels the loop does not skip, in column order.\<close>

definition numeric_labels :: "'a data_frame \<Rightarrow> string list" where
  "numeric_labels data =
     filter (\<lambda>column. is_numeric_dtype (getitem data column)) (map fst (df_columns data))"

text \<open>The twelve column names derived from one label.\<close>

definition derived_names :: "string \<Rightarrow> string list" where
  "derived_names column = map (\<lambda>stat. column @ ''_'' @ stat) stat_names"

text \<open>The complete rows of a table: the positions at which every column is defined.\<close>

definition complete_rows :: "'a feature_frame \<Rightarrow> nat set" where
  "complete_rows frame = {i. \<forall>c \<in> set (ff_columns frame). snd c ! i \<noteq> NaN}"

text \<open>The stored form of the columns of one signal: each name prefixed by the label.\<close>

definition prefixed :: "string \<Rightarrow> (string \<times> 'b) list \<Rightarrow> (string \<times> 'b) list" where
  "prefixed column stats = map (\<lambda>sv. (column @ ''_'' @ fst sv, snd sv)) stats"

text \<open>The twelve columns computed for a label (none when the computation raises).\<close>

definition stats_of ::
  "'a library \<Rightarrow> 'a data_frame \<Rightarrow> int \<Rightarrow> string \<Rightarrow> (string \<times> 'a cell list) list"
where
  "stats_of lib data window_size column =
     (case signal_features lib (df_index data) window_size
             (item_values (getitem data column)) of
        Inl e \<Rightarrow> []
      | Inr stats \<Rightarrow> stats)"

section \<open>An exact-arithmetic instance of the library record\<close>

text \<open>
  For running the pipeline on concrete tables the library record is instantiated over
  the rationals. Mean, minimum, maximum, quantiles (linear interpolation between order
  statistics), the observation count, subtraction and the lag-1 autocorrelation
  (direct definition, biased normalisation) are exact, and \<^verbatim>\<open>x[0]\<close> reads by position.
  The standard deviation,
  skewness and kurtosis need roots, so they are replaced by rational moment
  expressions that are undefined on the same windows (fewer than 2, 3 and 4
  observations).
\<close>

fun nums :: "'a cell list \<Rightarrow> 'a list" where
  "nums [] = []"
| "nums (NaN # w) = nums w"
| "nums (Num a # w) = a # nums w"

definition mean_of :: "rat list \<Rightarrow> rat" where
  "mean_of ns = sum_list ns / of_nat (length ns)"

definition central_moment :: "nat \<Rightarrow> rat list \<Rightarrow> rat" where
  "central_moment k ns = sum_list (map (\<lambda>x. (x - mean_of ns) ^ k) ns)"

definition quantile_of :: "rat \<Rightarrow> rat list \<Rightarrow> rat" where
  "quantile_of q ns =
     (let s = sort ns;
          pos = q * of_nat (length s - 1);
          lo = nat \<lfloor>pos\<rfloor>;
          frac = pos - of_nat lo
      in if Suc lo < length s then s ! lo + frac * (s ! Suc lo - s ! lo) else s ! lo)"

definition aggregate :: "nat \<Rightarrow> (rat list \<Rightarrow> rat) \<Rightarrow> rat cell list \<Rightarrow> rat cell" where
  "aggregate minimum f w = (if length (nums w) < minimum then NaN else Num (f (nums w)))"

definition acf_direct :: "rat cell list \<Rightarrow> error + rat cell list" where
  "acf_direct x =
     (let ns = nums x;
          d = map (\<lambda>v. v - mean_of ns) ns;
          c0 = sum_list (map (\<lambda>v. v * v) d);
          c1 = sum_list (map2 (*) (butlast d) (tl d))
      in if length ns < length x \<or> c0 = 0 then Inr [NaN, NaN]
         else Inr [Num 1, Num (c1 / c0)])"

fun fsub_exact :: "rat cell \<Rightarrow> rat cell \<Rightarrow> rat cell" where
  "fsub_exact (Num a) (Num b) = Num (a - b)"
| "fsub_exact NaN b = NaN"
| "fsub_exact (Num a) NaN = NaN"

definition exact_lib :: "rat library" where
  "exact_lib =
     \<lparr>roll_mean = aggregate 1 mean_of,
      roll_std = aggregate 2 (\<lambda>ns. central_moment 2 ns / of_nat (length ns - 1)),
      roll_min = aggregate 1 (\<lambda>ns. fold min ns (hd ns)),
      roll_max = aggregate 1 (\<lambda>ns. fold max ns (hd ns)),
      roll_median = aggregate 1 (quantile_of (1 / 2)),
      roll_quantile = (\<lambda>q. aggregate 1 (quantile_of q)),
      series_skew = aggregate 3 (central_moment 3),
      series_kurt = aggregate 4 (central_moment 4),
      acf = acf_direct,
      series_first = (\<lambda>x. case x of [] \<Rightarrow> Inl IndexError | v # vs \<Rightarrow> Inr v),
      nobs = (\<lambda>w. length (nums w)),
      fsub = fsub_exact\<rparr>"



text \<open>
  A table of five rows sampled at 0, 1, 2, 3 and 5 seconds with two numeric signals and
  a text column between them.
\<close>

definition sample_data :: "rat data_frame" where
  "sample_data =
     \<lparr>df_index = DatetimeIndex [0, 1000000000, 2000000000, 3000000000, 5000000000],
      df_columns =
        [(''hr'', Numeric [Num 60, Num 62, Num 61, Num 65, Num 63]),
         (''subject'', NonNumeric [''a'', ''a'', ''a'', ''a'', ''a'']),
         (''eda'', Numeric [Num 3, Num 4, Num 4, Num 6, Num 5])]\<rparr>"

text \<open>
  The features of that table for a window of 4 seconds: only the row at 3 seconds has
  four samples in its window, which the fourth-moment column needs.
\<close>

definition sample_out :: "rat feature_frame" where
  "sample_out =
     \<lparr>ff_index = DatetimeIndex [3000000000],
      ff_columns =
        [(''hr_mean'', [Num 62]), (''hr_std'', [Num (14 / 3)]),
         (''hr_min'', [Num 60]), (''hr_max'', [Num 65]),
         (''hr_range'', [Num 5]), (''hr_median'', [Num (123 / 2)]),
         (''hr_q25'', [Num (243 / 4)]), (''hr_q75'', [Num (251 / 4)]),
         (''hr_iqr'', [Num 2]), (''hr_skew'', [Num 18]),
         (''hr_kurt'', [Num 98]), (''hr_autocorr'', [Num (- (3 / 14))]),
         (''eda_mean'', [Num (17 / 4)]), (''eda_std'', [Num (19 / 12)]),
         (''eda_min'', [Num 3]), (''eda_max'', [Num 6]),
         (''eda_range'', [Num 3]), (''eda_median'', [Num 4]),
         (''eda_q25'', [Num (15 / 4)]), (''eda_q75'', [Num (9 / 2)]),
         (''eda_iqr'', [Num (3 / 4)]), (''eda_skew'', [Num (27 / 8)]),
         (''eda_kurt'', [Num (757 / 64)]),
         (''eda_autocorr'', [Num (- (1 / 76))])]\<rparr>"


text \<open>A table with text columns only, on a plain integer index.\<close>

definition text_only_data :: "rat data_frame" where
  "text_only_data =
     \<lparr>df_index = OtherIndex [0, 1, 2],
      df_columns =
        [(''subject'', NonNumeric [''a'', ''b'', ''c'']),
         (''session'', NonNumeric [''x'', ''y'', ''z''])]\<rparr>"



section \<open>\<^verbatim>\<open>build_arima_model\<close>\<close>

text \<open>
  A series: its index, the \<^verbatim>\<open>freq\<close> attribute of the index (a fixed step in
  nanoseconds, or \<^verbatim>\<open>None\<close>) and its values.
\<close>

record 'v series =
  s_index :: index
  s_freq :: "int option"
  s_values :: "'v list"

text \<open>
  \<^verbatim>\<open>pd.date_range(start, periods, freq)\<close> for a fixed-step frequency; without a
  frequency pandas steps by calendar day.
\<close>

definition day_ns :: int where
  "day_ns = 86400000000000"

definition date_range :: "int \<Rightarrow> nat \<Rightarrow> int option \<Rightarrow> int list" where
  "date_range start periods freq =
     map (\<lambda>k. start + int k * (case freq of None \<Rightarrow> day_ns | Some step \<Rightarrow> step)) [0..<periods]"

definition forecast_steps :: nat where
  "forecast_steps = 10"

text \<open>
  The x-coordinates of the forecast. For a \<^verbatim>\<open>DatetimeIndex\<close> the range starts at the
  last timestamp (\<^verbatim>\<open>series.index[-1]\<close>, an \<^verbatim>\<open>IndexError\<close> on an empty index) and its
  first point is dropped; otherwise they are
  \<^verbatim>\<open>np.arange(len(series), len(series) + forecast_steps)\<close>.
\<close>

definition forecast_index :: "'v series \<Rightarrow> nat \<Rightarrow> error + int list" where
  "forecast_index series steps =
     (case s_index series of
        DatetimeIndex ts \<Rightarrow>
          if ts = [] then Inl IndexError
          else Inr (tl (date_range (last ts) (steps + 1) (s_freq series)))
      | OtherIndex ls \<Rightarrow>
          Inr (map int [length (s_values series) ..< length (s_values series) + steps]))"









text \<open>A series of ten values labelled 10 to 19, as a slice of a longer series is.\<close>

definition sliced_series :: "rat series" where
  "sliced_series =
     \<lparr>s_index = OtherIndex [10, 11, 12, 13, 14, 15, 16, 17, 18, 19],
      s_freq = None,
      s_values = [1, 2, 3, 4, 5, 6, 7, 8, 9, 10]\<rparr>"




section \<open>Offset windows are trailing time windows\<close>












section \<open>The dictionary of derived columns\<close>

subsection \<open>Keys of the feature dictionary\<close>

lemma key_split:
  assumes "c1 @ ''_'' @ s1 = c2 @ ''_'' @ s2"
    and "CHR ''_'' \<notin> set s1" and "CHR ''_'' \<notin> set s2"
  shows "c1 = c2 \<and> s1 = s2"
proof -
  from assms(1) obtain us where
    "(c1 = c2 @ us \<and> us @ ''_'' @ s1 = ''_'' @ s2) \<or> (c1 @ us = c2 \<and> ''_'' @ s1 = us @ ''_'' @ s2)"
    by (auto simp: append_eq_append_conv2)
  then show ?thesis
  proof
    assume h: "c1 = c2 @ us \<and> us @ ''_'' @ s1 = ''_'' @ s2"
    show ?thesis
    proof (cases us)
      case Nil
      then show ?thesis using h by simp
    next
      case (Cons u us')
      then have "s2 = us' @ ''_'' @ s1" using h by simp
      then show ?thesis using assms(3) by simp
    qed
  next
    assume h: "c1 @ us = c2 \<and> ''_'' @ s1 = us @ ''_'' @ s2"
    show ?thesis
    proof (cases us)
      case Nil
      then show ?thesis using h by simp
    next
      case (Cons u us')
      then have "s1 = us' @ ''_'' @ s2" using h by simp
      then show ?thesis using assms(2) by simp
    qed
  qed
qed

lemma stat_names_no_underscore: "s \<in> set stat_names \<Longrightarrow> CHR ''_'' \<notin> set s"
  by (auto simp: stat_names_def)

lemma distinct_stat_names: "distinct stat_names"
  by (simp add: stat_names_def)

lemma distinct_derived_names: "distinct (derived_names c)"
  unfolding derived_names_def
  by (simp add: distinct_map distinct_stat_names inj_on_def del: append.simps)

lemma derived_names_disjoint:
  "c1 \<noteq> c2 \<Longrightarrow> set (derived_names c1) \<inter> set (derived_names c2) = {}"
proof (rule ccontr)
  assume ne: "c1 \<noteq> c2" and "set (derived_names c1) \<inter> set (derived_names c2) \<noteq> {}"
  then obtain k where "k \<in> set (derived_names c1)" "k \<in> set (derived_names c2)" by blast
  then obtain s1 s2 where s: "s1 \<in> set stat_names" "k = c1 @ ''_'' @ s1"
      "s2 \<in> set stat_names" "k = c2 @ ''_'' @ s2"
    unfolding derived_names_def by auto
  have "c1 = c2 \<and> s1 = s2"
    using key_split[of c1 s1 c2 s2] s stat_names_no_underscore by simp
  then show False using ne by simp
qed

subsection \<open>Dictionary stores\<close>

lemma update_fresh: "k \<notin> fst ` set al \<Longrightarrow> AList.update k v al = al @ [(k, v)]"
  by (induction al) auto

lemma foldl_update_fresh:
  "distinct (map fst kvs) \<Longrightarrow> fst ` set kvs \<inter> fst ` set al = {} \<Longrightarrow>
   foldl (\<lambda>fs kv. AList.update (fst kv) (snd kv) fs) al kvs = al @ kvs"
proof (induction kvs arbitrary: al)
  case Nil
  then show ?case by simp
next
  case (Cons kv kvs)
  have fresh: "fst kv \<notin> fst ` set al" using Cons.prems(2) by auto
  have "fst ` set kvs \<inter> fst ` set (al @ [kv]) = {}"
    using Cons.prems by auto
  then have "foldl (\<lambda>fs kv. AList.update (fst kv) (snd kv) fs) (al @ [kv]) kvs = (al @ [kv]) @ kvs"
    using Cons.IH[of "al @ [kv]"] Cons.prems(1) by simp
  then show ?case using fresh by (simp add: update_fresh)
qed


lemma store_features_prefixed:
  "store_features column stats features =
   foldl (\<lambda>fs kv. AList.update (fst kv) (snd kv) fs) features (prefixed column stats)"
  unfolding store_features_def prefixed_def by (simp add: foldl_map)

lemma keys_prefixed:
  "map fst stats = stat_names \<Longrightarrow> map fst (prefixed column stats) = derived_names column"
proof -
  have "map fst (prefixed column stats) = map (\<lambda>stat. column @ ''_'' @ stat) (map fst stats)"
    by (simp add: prefixed_def comp_def)
  then show "map fst stats = stat_names \<Longrightarrow> ?thesis"
    by (simp add: derived_names_def)
qed

lemma store_features_fresh:
  assumes "map fst stats = stat_names"
    and "set (derived_names column) \<inter> fst ` set features = {}"
  shows "store_features column stats features = features @ prefixed column stats"
proof -
  have k: "map fst (prefixed column stats) = derived_names column"
    using assms(1) by (rule keys_prefixed)
  have "distinct (map fst (prefixed column stats))"
    using k distinct_derived_names by simp
  moreover have "fst ` set (prefixed column stats) \<inter> fst ` set features = {}"
    using k assms(2) by (simp flip: set_map)
  ultimately show ?thesis
    unfolding store_features_prefixed by (rule foldl_update_fresh)
qed

subsection \<open>Rolling application\<close>

lemma rolling_apply_length:
  "rolling_apply lib func ws = Inr vs \<Longrightarrow> length vs = length ws"
  by (induction ws arbitrary: vs) (auto split: if_splits sum.splits)





lemma rolling_length:
  "rolling idx window_size signal = Inr ws \<Longrightarrow> length ws = length (index_values idx)"
  unfolding rolling_def window_bounds_def by (auto split: index.splits if_splits)

lemma signal_features_Inr:
  assumes "signal_features lib idx window_size signal = Inr stats"
  shows "\<exists>ws sk ku ac.
    rolling idx window_size signal = Inr ws \<and>
    rolling_apply lib (\<lambda>x. Inr (series_skew lib x)) ws = Inr sk \<and>
    rolling_apply lib (\<lambda>x. Inr (series_kurt lib x)) ws = Inr ku \<and>
    rolling_apply lib (compute_autocorr lib) ws = Inr ac \<and>
    stats =
      [(''mean'', map (roll_mean lib) ws), (''std'', map (roll_std lib) ws),
       (''min'', map (roll_min lib) ws), (''max'', map (roll_max lib) ws),
       (''range'', map2 (fsub lib) (map (roll_max lib) ws) (map (roll_min lib) ws)),
       (''median'', map (roll_median lib) ws),
       (''q25'', map (roll_quantile lib (1 / 4)) ws),
       (''q75'', map (roll_quantile lib (3 / 4)) ws),
       (''iqr'', map2 (fsub lib) (map (roll_quantile lib (3 / 4)) ws)
                   (map (roll_quantile lib (1 / 4)) ws)),
       (''skew'', sk), (''kurt'', ku), (''autocorr'', ac)]"
  using assms unfolding signal_features_def
  by (auto simp: Let_def split: sum.splits)

lemma signal_features_keys:
  "signal_features lib idx window_size signal = Inr stats \<Longrightarrow> map fst stats = stat_names"
  unfolding signal_features_def stat_names_def
  by (auto simp: Let_def split: sum.splits)

lemma signal_features_lengths:
  assumes "signal_features lib idx window_size signal = Inr stats"
    and "sv \<in> set stats"
  shows "length (snd sv) = length (index_values idx)"
proof -
  from signal_features_Inr[OF assms(1)] obtain ws sk ku ac where
    ws: "rolling idx window_size signal = Inr ws"
    and sk: "rolling_apply lib (\<lambda>x. Inr (series_skew lib x)) ws = Inr sk"
    and ku: "rolling_apply lib (\<lambda>x. Inr (series_kurt lib x)) ws = Inr ku"
    and ac: "rolling_apply lib (compute_autocorr lib) ws = Inr ac"
    and stats: "stats =
      [(''mean'', map (roll_mean lib) ws), (''std'', map (roll_std lib) ws),
       (''min'', map (roll_min lib) ws), (''max'', map (roll_max lib) ws),
       (''range'', map2 (fsub lib) (map (roll_max lib) ws) (map (roll_min lib) ws)),
       (''median'', map (roll_median lib) ws),
       (''q25'', map (roll_quantile lib (1 / 4)) ws),
       (''q75'', map (roll_quantile lib (3 / 4)) ws),
       (''iqr'', map2 (fsub lib) (map (roll_quantile lib (3 / 4)) ws)
                   (map (roll_quantile lib (1 / 4)) ws)),
       (''skew'', sk), (''kurt'', ku), (''autocorr'', ac)]"
    by blast
  have n: "length ws = length (index_values idx)" using ws by (rule rolling_length)
  have "length sk = length ws" "length ku = length ws" "length ac = length ws"
    using sk ku ac by (auto dest: rolling_apply_length)
  then show ?thesis using assms(2) n unfolding stats by auto
qed


subsection \<open>The loop over the columns\<close>

lemma keys_append_prefixed:
  "map fst stats = stat_names \<Longrightarrow>
   fst ` set (features @ prefixed column stats) = fst ` set features \<union> set (derived_names column)"
  using keys_prefixed[of stats column] by (simp add: image_Un flip: set_map)

lemma process_columns_explicit:
  assumes "process_columns lib data window_size cs features = Inr res"
    and "distinct (filter (\<lambda>c. is_numeric_dtype (getitem data c)) cs)"
    and "\<And>c. c \<in> set cs \<Longrightarrow> is_numeric_dtype (getitem data c) \<Longrightarrow>
           set (derived_names c) \<inter> fst ` set features = {}"
  shows "res = features @ concat (map (\<lambda>c. prefixed c (stats_of lib data window_size c))
                                 (filter (\<lambda>c. is_numeric_dtype (getitem data c)) cs)) \<and>
         (\<forall>c \<in> set cs. is_numeric_dtype (getitem data c) \<longrightarrow>
            signal_features lib (df_index data) window_size (item_values (getitem data c))
              = Inr (stats_of lib data window_size c))"
  using assms
proof (induction cs arbitrary: features)
  case Nil
  then show ?case by simp
next
  case (Cons c cs)
  show ?case
  proof (cases "is_numeric_dtype (getitem data c)")
    case False
    then have "process_columns lib data window_size cs features = Inr res"
      using Cons.prems(1) by simp
    moreover have "distinct (filter (\<lambda>c. is_numeric_dtype (getitem data c)) cs)"
      using Cons.prems(2) False by simp
    ultimately have "res = features @ concat (map (\<lambda>c. prefixed c (stats_of lib data window_size c))
                                 (filter (\<lambda>c. is_numeric_dtype (getitem data c)) cs)) \<and>
         (\<forall>c \<in> set cs. is_numeric_dtype (getitem data c) \<longrightarrow>
            signal_features lib (df_index data) window_size (item_values (getitem data c))
              = Inr (stats_of lib data window_size c))"
      using Cons.IH[of features] Cons.prems(3) by simp
    then show ?thesis using False by simp
  next
    case True
    then obtain stats where
      sf: "signal_features lib (df_index data) window_size (item_values (getitem data c)) = Inr stats"
      and rest: "process_columns lib data window_size cs (store_features c stats features) = Inr res"
      using Cons.prems(1) by (auto split: sum.splits)
    have so: "stats_of lib data window_size c = stats"
      using sf by (simp add: stats_of_def)
    have keys: "map fst stats = stat_names" using sf by (rule signal_features_keys)
    have fresh: "set (derived_names c) \<inter> fst ` set features = {}"
      using Cons.prems(3)[of c] True by simp
    have store: "store_features c stats features = features @ prefixed c stats"
      using keys fresh by (rule store_features_fresh)
    have d: "distinct (filter (\<lambda>c. is_numeric_dtype (getitem data c)) cs)"
      and notin: "c \<notin> set (filter (\<lambda>c. is_numeric_dtype (getitem data c)) cs)"
      using Cons.prems(2) True by simp_all
    have fresh': "\<And>c'. c' \<in> set cs \<Longrightarrow> is_numeric_dtype (getitem data c') \<Longrightarrow>
           set (derived_names c') \<inter> fst ` set (features @ prefixed c stats) = {}"
    proof -
      fix c' assume c': "c' \<in> set cs" "is_numeric_dtype (getitem data c')"
      then have "c' \<noteq> c" using notin by auto
      then have "set (derived_names c') \<inter> set (derived_names c) = {}"
        by (rule derived_names_disjoint)
      moreover have "set (derived_names c') \<inter> fst ` set features = {}"
        using Cons.prems(3)[of c'] c' by simp
      ultimately show "set (derived_names c') \<inter> fst ` set (features @ prefixed c stats) = {}"
        unfolding keys_append_prefixed[OF keys] by blast
    qed
    have "res = (features @ prefixed c stats) @ concat (map (\<lambda>c. prefixed c (stats_of lib data window_size c))
                                 (filter (\<lambda>c. is_numeric_dtype (getitem data c)) cs)) \<and>
         (\<forall>c \<in> set cs. is_numeric_dtype (getitem data c) \<longrightarrow>
            signal_features lib (df_index data) window_size (item_values (getitem data c))
              = Inr (stats_of lib data window_size c))"
      using Cons.IH[of "features @ prefixed c stats"] rest d fresh' unfolding store by blast
    then show ?thesis using True so sf by simp
  qed
qed

lemma distinct_filter_count:
  "(\<And>x. P x \<Longrightarrow> length (filter ((=) x) xs) \<le> 1) \<Longrightarrow> distinct (filter P xs)"
proof (induction xs)
  case Nil
  then show ?case by simp
next
  case (Cons a xs)
  have ih: "distinct (filter P xs)"
  proof (rule Cons.IH)
    fix x assume "P x"
    then have "length (filter ((=) x) (a # xs)) \<le> 1" by (rule Cons.prems)
    then show "length (filter ((=) x) xs) \<le> 1" by (simp split: if_splits)
  qed
  show ?case
  proof (cases "P a")
    case False
    then show ?thesis using ih by simp
  next
    case True
    then have "length (filter ((=) a) (a # xs)) \<le> 1" by (rule Cons.prems)
    then have "filter ((=) a) xs = []" by simp
    then have "a \<notin> set xs" by (auto simp: filter_empty_conv)
    then show ?thesis using ih True by simp
  qed
qed

lemma numeric_label_once:
  assumes "is_numeric_dtype (getitem data c)"
  shows "length (filter ((=) c) (map fst (df_columns data))) \<le> 1"
proof -
  from assms obtain p where "filter (\<lambda>p. fst p = c) (df_columns data) = [p]"
    unfolding getitem_def by (auto split: list.splits)
  moreover have "filter (\<lambda>p. c = fst p) (df_columns data) = filter (\<lambda>p. fst p = c) (df_columns data)"
    by (rule filter_cong) auto
  ultimately have "length (filter (\<lambda>p. c = fst p) (df_columns data)) = 1"
    by simp
  then show ?thesis by (simp add: filter_map comp_def)
qed

lemma distinct_numeric_labels: "distinct (numeric_labels data)"
  unfolding numeric_labels_def
  by (rule distinct_filter_count) (rule numeric_label_once)

lemma features_df_explicit:
  assumes "features_df lib data window_size = Inr frame"
  shows "ff_index frame = df_index data"
    and "ff_columns frame =
           concat (map (\<lambda>c. prefixed c (stats_of lib data window_size c)) (numeric_labels data))"
    and "\<And>c. c \<in> set (numeric_labels data) \<Longrightarrow>
           signal_features lib (df_index data) window_size (item_values (getitem data c))
             = Inr (stats_of lib data window_size c)"
proof -
  from assms obtain features where
    pc: "process_columns lib data window_size (map fst (df_columns data)) [] = Inr features"
    and fr: "frame = \<lparr>ff_index = df_index data, ff_columns = features\<rparr>"
    unfolding features_df_def by (auto split: sum.splits)
  have d: "distinct (filter (\<lambda>c. is_numeric_dtype (getitem data c)) (map fst (df_columns data)))"
    using distinct_numeric_labels[of data] by (simp add: numeric_labels_def)
  note ex = process_columns_explicit[OF pc d]
  show "ff_index frame = df_index data" using fr by simp
  show "ff_columns frame =
           concat (map (\<lambda>c. prefixed c (stats_of lib data window_size c)) (numeric_labels data))"
    using ex fr by (simp add: numeric_labels_def)
  show "\<And>c. c \<in> set (numeric_labels data) \<Longrightarrow>
           signal_features lib (df_index data) window_size (item_values (getitem data c))
             = Inr (stats_of lib data window_size c)"
    using ex by (auto simp: numeric_labels_def)
qed

lemma features_df_keys:
  assumes "features_df lib data window_size = Inr frame"
  shows "map fst (ff_columns frame) = concat (map derived_names (numeric_labels data))"
proof -
  have "map fst (prefixed c (stats_of lib data window_size c)) = derived_names c"
    if "c \<in> set (numeric_labels data)" for c
    using features_df_explicit(3)[OF assms that] signal_features_keys keys_prefixed by blast
  then have meq: "map (\<lambda>c. map fst (prefixed c (stats_of lib data window_size c))) (numeric_labels data)
             = map derived_names (numeric_labels data)"
    by simp
  show ?thesis
    unfolding features_df_explicit(2)[OF assms]
    by (simp only: map_concat map_map comp_def meq)
qed

lemma derived_names_nonempty: "derived_names c \<noteq> []"
  by (simp add: derived_names_def stat_names_def)

lemma derived_names_inj: "derived_names c1 = derived_names c2 \<Longrightarrow> c1 = c2"
proof (rule ccontr)
  assume eq: "derived_names c1 = derived_names c2" and "c1 \<noteq> c2"
  then have "set (derived_names c1) \<inter> set (derived_names c2) = {}"
    using derived_names_disjoint by blast
  then have "set (derived_names c1) = {}" using eq by simp
  then show False using derived_names_nonempty by simp
qed

lemma distinct_feature_keys:
  assumes "features_df lib data window_size = Inr frame"
  shows "distinct (map fst (ff_columns frame))"
  unfolding features_df_keys[OF assms]
proof (rule distinct_concat)
  show "distinct (map derived_names (numeric_labels data))"
    using distinct_numeric_labels derived_names_inj by (simp add: distinct_map inj_on_def)
next
  fix ys assume "ys \<in> set (map derived_names (numeric_labels data))"
  then show "distinct ys" using distinct_derived_names by auto
next
  fix ys zs
  assume "ys \<in> set (map derived_names (numeric_labels data))"
    "zs \<in> set (map derived_names (numeric_labels data))" "ys \<noteq> zs"
  then obtain c1 c2 where "ys = derived_names c1" "zs = derived_names c2" "c1 \<noteq> c2"
    by auto
  then show "set ys \<inter> set zs = {}" using derived_names_disjoint by simp
qed

lemma features_df_lengths:
  assumes "features_df lib data window_size = Inr frame"
    and "col \<in> set (ff_columns frame)"
  shows "length (snd col) = length (index_values (df_index data))"
proof -
  from assms(2) obtain c sv where c: "c \<in> set (numeric_labels data)"
    and sv: "sv \<in> set (stats_of lib data window_size c)"
    and col: "col = (c @ ''_'' @ fst sv, snd sv)"
    unfolding features_df_explicit(2)[OF assms(1)] prefixed_def by auto
  show ?thesis
    using signal_features_lengths[OF features_df_explicit(3)[OF assms(1) c] sv] col by simp
qed

subsection \<open>Trimming\<close>

lemma select_mask_nths:
  "select_mask xs (map P [0..<length xs]) = nths xs {i. P i}"
  unfolding select_mask_def nths_def
  by (simp add: zip_map2 filter_map comp_def case_prod_unfold)

lemma notna_all_complete:
  "notna_all frame =
     map (\<lambda>i. i \<in> complete_rows frame) [0..<length (index_values (ff_index frame))]"
  unfolding notna_all_def complete_rows_def by (simp add: list_all_iff)

lemma index_values_select:
  "index_values (select_index idx keep) = select_mask (index_values idx) keep"
  by (cases idx) simp_all

lemma dropna_index:
  "index_values (ff_index (dropna frame)) =
     nths (index_values (ff_index frame)) (complete_rows frame)"
  unfolding dropna_def Let_def
  by (simp add: index_values_select notna_all_complete select_mask_nths)

lemma dropna_keys: "map fst (ff_columns (dropna frame)) = map fst (ff_columns frame)"
  unfolding dropna_def Let_def by (simp add: comp_def)

lemma dropna_column:
  assumes "k < length (ff_columns frame)"
    and "length (snd (ff_columns frame ! k)) = length (index_values (ff_index frame))"
  shows "snd (ff_columns (dropna frame) ! k) = nths (snd (ff_columns frame ! k)) (complete_rows frame)"
  using assms select_mask_nths[of "snd (ff_columns frame ! k)" "\<lambda>i. i \<in> complete_rows frame"]
  unfolding dropna_def Let_def
  by (simp add: notna_all_complete)

lemma sample_extract: "extract_time_series_features exact_lib sample_data 4 = Inr sample_out"
  by code_simp

lemma extract_Inr:
  assumes "extract_time_series_features lib data window_size = Inr out"
  shows "\<exists>frame. features_df lib data window_size = Inr frame \<and> out = dropna frame"
  using assms unfolding extract_time_series_features_def by (auto split: sum.splits)

lemma process_columns_skip:
  "(\<And>c. c \<in> set cs \<Longrightarrow> \<not> is_numeric_dtype (getitem data c)) \<Longrightarrow>
   process_columns lib data window_size cs features = Inr features"
  by (induction cs) simp_all

lemma select_mask_all:
  "select_mask xs (map (\<lambda>i. True) [0..<length xs]) = xs"
  unfolding select_mask_nths by (simp add: nths_all)

lemma dropna_no_columns:
  "dropna \<lparr>ff_index = idx, ff_columns = []\<rparr> = \<lparr>ff_index = idx, ff_columns = []\<rparr>"
  unfolding dropna_def notna_all_def Let_def
  by (cases idx) (simp_all add: select_mask_all)

subsection \<open>Windows of a constant signal\<close>








lemma prefixed_mem:
  "(s, v) \<in> set stats \<Longrightarrow> (column @ ''_'' @ s, v) \<in> set (prefixed column stats)"
proof -
  assume "(s, v) \<in> set stats"
  then have "(\<lambda>sv. (column @ ''_'' @ fst sv, snd sv)) (s, v)
               \<in> (\<lambda>sv. (column @ ''_'' @ fst sv, snd sv)) ` set stats"
    by (rule imageI)
  then show ?thesis by (simp add: prefixed_def)
qed

subsection \<open>Lookups in the trimmed table\<close>

lemma select_mask_map2:
  "length xs = length ys \<Longrightarrow>
   select_mask (map2 f xs ys) keep = map2 f (select_mask xs keep) (select_mask ys keep)"
proof (induction keep arbitrary: xs ys)
  case Nil
  then show ?case by (simp add: select_mask_def)
next
  case (Cons b keep)
  show ?case
  proof (cases xs)
    case Nil
    then show ?thesis using Cons.prems by (simp add: select_mask_def)
  next
    case xs: (Cons x xs')
    then obtain y ys' where ys: "ys = y # ys'" using Cons.prems by (cases ys) auto
    have "select_mask (map2 f xs' ys') keep =
            map2 f (select_mask xs' keep) (select_mask ys' keep)"
      using Cons.IH[of xs' ys'] Cons.prems xs ys by simp
    then show ?thesis unfolding xs ys by (simp add: select_mask_def)
  qed
qed

lemma select_mask_length:
  "length xs = length ys \<Longrightarrow> length (select_mask xs keep) = length (select_mask ys keep)"
proof (induction keep arbitrary: xs ys)
  case Nil
  then show ?case by (simp add: select_mask_def)
next
  case (Cons b keep)
  show ?case
  proof (cases xs)
    case Nil
    then show ?thesis using Cons.prems by (simp add: select_mask_def)
  next
    case xs: (Cons x xs')
    then obtain y ys' where ys: "ys = y # ys'" using Cons.prems by (cases ys) auto
    have "length (select_mask xs' keep) = length (select_mask ys' keep)"
      using Cons.IH[of xs' ys'] Cons.prems xs ys by simp
    then show ?thesis unfolding xs ys by (simp add: select_mask_def)
  qed
qed

lemma dropna_lookup:
  assumes "distinct (map fst (ff_columns frame))"
    and "(key, col) \<in> set (ff_columns frame)"
  shows "map_of (ff_columns (dropna frame)) key = Some (select_mask col (notna_all frame))"
proof -
  have d: "distinct (map fst (ff_columns (dropna frame)))"
    using assms(1) by (simp add: dropna_keys)
  have "(\<lambda>c. (fst c, select_mask (snd c) (notna_all frame))) (key, col)
          \<in> (\<lambda>c. (fst c, select_mask (snd c) (notna_all frame))) ` set (ff_columns frame)"
    using assms(2) by (rule imageI)
  then have "(key, select_mask col (notna_all frame)) \<in> set (ff_columns (dropna frame))"
    unfolding dropna_def Let_def by simp
  then show ?thesis using d by simp
qed

lemma features_df_member:
  assumes "features_df lib data window_size = Inr frame"
    and "column \<in> set (numeric_labels data)"
    and "(s, v) \<in> set (stats_of lib data window_size column)"
  shows "(column @ ''_'' @ s, v) \<in> set (ff_columns frame)"
proof -
  have "(column @ ''_'' @ s, v) \<in> set (prefixed column (stats_of lib data window_size column))"
    using assms(3) by (rule prefixed_mem)
  then show ?thesis
    unfolding features_df_explicit(2)[OF assms(1)] using assms(2) by auto
qed

lemma nth_map2:
  "k < length xs \<Longrightarrow> k < length ys \<Longrightarrow> map2 f xs ys ! k = f (xs ! k) (ys ! k)"
  by simp


subsection \<open>The extraction returns on a monotonic time index\<close>



subsection \<open>The sample libraries and the width bound\<close>






section \<open>Effects of \<^verbatim>\<open>build_arima_model\<close>\<close>







lemma forecast_index_datetime:
  assumes "s_index series = DatetimeIndex ts" and "ts \<noteq> []" and "s_freq series = Some step"
  shows "forecast_index series forecast_steps =
           Inr (map (\<lambda>k. last ts + int k * step) [1..<11])"
proof -
  have "[0..<11] = 0 # [1..<11]" by (simp add: upt_conv_Cons)
  then have "tl (date_range (last ts) 11 (Some step)) =
          map (\<lambda>k. last ts + int k * step) [1..<11]"
    unfolding date_range_def by simp
  then show ?thesis
    using assms unfolding forecast_index_def forecast_steps_def by simp
qed

section \<open>Properties of the feature table\<close>

text \<open>
  Claim C10. Whenever \<^verbatim>\<open>extract_time_series_features\<close> returns a table, its columns are
  grouped by input signal in the order of the numeric input columns, and within each
  group the twelve derived columns stand in the fixed order mean, std, min, max, range,
  median, q25, q75, iqr, skew, kurt, autocorr.
\<close>

theorem feature_column_order:
  assumes "extract_time_series_features lib data window_size = Inr out"
  shows "map fst (ff_columns out) = concat (map derived_names (numeric_labels data)) \<and>
         (\<forall>column. derived_names column =
            [column @ ''_mean'', column @ ''_std'', column @ ''_min'', column @ ''_max'',
             column @ ''_range'', column @ ''_median'', column @ ''_q25'', column @ ''_q75'',
             column @ ''_iqr'', column @ ''_skew'', column @ ''_kurt'', column @ ''_autocorr''])"
proof -
  from extract_Inr[OF assms] obtain frame where
    fr: "features_df lib data window_size = Inr frame" and out: "out = dropna frame" by blast
  have "map fst (ff_columns out) = concat (map derived_names (numeric_labels data))"
    unfolding out dropna_keys by (rule features_df_keys[OF fr])
  then show ?thesis by (simp add: derived_names_def stat_names_def)
qed

theorem feature_column_order_witness:
  "extract_time_series_features exact_lib sample_data 4 = Inr sample_out \<and>
   numeric_labels sample_data = [''hr'', ''eda''] \<and>
   map fst (ff_columns sample_out) = concat (map derived_names [''hr'', ''eda''])"
proof -
  have n: "numeric_labels sample_data = [''hr'', ''eda'']" by code_simp
  show ?thesis
    using feature_column_order[OF sample_extract] sample_extract n by simp
qed

text \<open>
  Claim C1. Whenever \<^verbatim>\<open>extract_time_series_features\<close> returns a table, the table
  built before trimming carries the index of the input, and the returned table holds
  exactly the rows at which every derived column of every signal is defined: its index
  and each of its columns are the sublists, in the original order, of the index and of
  the column before trimming at those positions. A row with an undefined value in any
  derived column is therefore dropped from all columns together. (The function does
  return a table for every table on a monotonic datetime index when the width is in
  range and \<^verbatim>\<open>x[0]\<close> reads by position, by the lemma \<open>extract_returns\<close>.)
\<close>

theorem trimmed_rows:
  assumes "extract_time_series_features lib data window_size = Inr out"
  shows "\<exists>frame. features_df lib data window_size = Inr frame \<and>
           ff_index frame = df_index data \<and>
           index_values (ff_index out) =
             nths (index_values (df_index data)) (complete_rows frame) \<and>
           map fst (ff_columns out) = map fst (ff_columns frame) \<and>
           (\<forall>k < length (ff_columns frame).
              snd (ff_columns out ! k) = nths (snd (ff_columns frame ! k)) (complete_rows frame))"
proof -
  from extract_Inr[OF assms] obtain frame where
    fr: "features_df lib data window_size = Inr frame" and out: "out = dropna frame" by blast
  have idx: "ff_index frame = df_index data" by (rule features_df_explicit(1)[OF fr])
  have rows: "index_values (ff_index out) =
             nths (index_values (df_index data)) (complete_rows frame)"
    unfolding out dropna_index idx by simp
  have keys: "map fst (ff_columns out) = map fst (ff_columns frame)"
    unfolding out by (rule dropna_keys)
  have cols: "\<forall>k < length (ff_columns frame).
              snd (ff_columns out ! k) = nths (snd (ff_columns frame ! k)) (complete_rows frame)"
  proof (intro allI impI)
    fix k assume k: "k < length (ff_columns frame)"
    then have "length (snd (ff_columns frame ! k)) = length (index_values (ff_index frame))"
      using features_df_lengths[OF fr, of "ff_columns frame ! k"] idx by simp
    then show "snd (ff_columns out ! k) = nths (snd (ff_columns frame ! k)) (complete_rows frame)"
      unfolding out using k by (rule dropna_column[rotated])
  qed
  show ?thesis using fr idx rows keys cols by blast
qed

theorem trimmed_rows_witness:
  "extract_time_series_features exact_lib sample_data 4 = Inr sample_out \<and>
   index_values (ff_index sample_out) = [3000000000] \<and>
   (\<exists>frame. features_df exact_lib sample_data 4 = Inr frame \<and>
           ff_index frame = df_index sample_data \<and>
           index_values (ff_index sample_out) =
             nths (index_values (df_index sample_data)) (complete_rows frame) \<and>
           map fst (ff_columns sample_out) = map fst (ff_columns frame) \<and>
           (\<forall>k < length (ff_columns frame).
              snd (ff_columns sample_out ! k) =
                nths (snd (ff_columns frame ! k)) (complete_rows frame)))"
proof -
  have "index_values (ff_index sample_out) = [3000000000]"
    by (simp add: sample_out_def)
  then show ?thesis
    using trimmed_rows[OF sample_extract] sample_extract by blast
qed

text \<open>
  Claim C9. For a table with no numeric column (an empty table included)
  \<^verbatim>\<open>extract_time_series_features\<close> returns, without raising, a table with zero
  columns that keeps the whole index of the input: with no derived column, trimming
  drops no row. No rolling object is built, so this holds for any kind of index.
\<close>

theorem no_numeric_columns:
  assumes "numeric_labels data = []"
  shows "extract_time_series_features lib data window_size =
           Inr \<lparr>ff_index = df_index data, ff_columns = []\<rparr>"
proof -
  have "\<And>c. c \<in> set (map fst (df_columns data)) \<Longrightarrow> \<not> is_numeric_dtype (getitem data c)"
    using assms unfolding numeric_labels_def by (auto simp: filter_empty_conv)
  then have "process_columns lib data window_size (map fst (df_columns data)) [] = Inr []"
    by (rule process_columns_skip)
  then show ?thesis
    unfolding extract_time_series_features_def features_df_def
    by (simp add: dropna_no_columns)
qed

theorem no_numeric_columns_witness:
  "numeric_labels text_only_data = [] \<and>
   extract_time_series_features exact_lib text_only_data 60 =
     Inr \<lparr>ff_index = OtherIndex [0, 1, 2], ff_columns = []\<rparr>"
proof -
  have n: "numeric_labels text_only_data = []" by code_simp
  have i: "df_index text_only_data = OtherIndex [0, 1, 2]" by (simp add: text_only_data_def)
  show ?thesis
    using no_numeric_columns[OF n, of exact_lib 60] n i by simp
qed







text \<open>
  Claim C4. For every numeric input column and every row of the returned table, the
  range column equals the max column minus the min column, and the iqr column equals
  the q75 column minus the q25 column, by the library's float subtraction.
\<close>

theorem range_iqr_exact:
  assumes "extract_time_series_features lib data window_size = Inr out"
    and "column \<in> set (numeric_labels data)"
    and "k < length (index_values (ff_index out))"
  shows "\<exists>rng mx mn iqr q75 q25.
           map_of (ff_columns out) (column @ ''_range'') = Some rng \<and>
           map_of (ff_columns out) (column @ ''_max'') = Some mx \<and>
           map_of (ff_columns out) (column @ ''_min'') = Some mn \<and>
           map_of (ff_columns out) (column @ ''_iqr'') = Some iqr \<and>
           map_of (ff_columns out) (column @ ''_q75'') = Some q75 \<and>
           map_of (ff_columns out) (column @ ''_q25'') = Some q25 \<and>
           rng ! k = fsub lib (mx ! k) (mn ! k) \<and>
           iqr ! k = fsub lib (q75 ! k) (q25 ! k)"
proof -
  from extract_Inr[OF assms(1)] obtain frame where
    fr: "features_df lib data window_size = Inr frame" and out: "out = dropna frame" by blast
  have sf: "signal_features lib (df_index data) window_size (item_values (getitem data column))
              = Inr (stats_of lib data window_size column)"
    by (rule features_df_explicit(3)[OF fr assms(2)])
  from signal_features_Inr[OF sf] obtain ws sk ku ac where
    ws: "rolling (df_index data) window_size (item_values (getitem data column)) = Inr ws"
    and stats: "stats_of lib data window_size column =
      [(''mean'', map (roll_mean lib) ws), (''std'', map (roll_std lib) ws),
       (''min'', map (roll_min lib) ws), (''max'', map (roll_max lib) ws),
       (''range'', map2 (fsub lib) (map (roll_max lib) ws) (map (roll_min lib) ws)),
       (''median'', map (roll_median lib) ws),
       (''q25'', map (roll_quantile lib (1 / 4)) ws),
       (''q75'', map (roll_quantile lib (3 / 4)) ws),
       (''iqr'', map2 (fsub lib) (map (roll_quantile lib (3 / 4)) ws)
                   (map (roll_quantile lib (1 / 4)) ws)),
       (''skew'', sk), (''kurt'', ku), (''autocorr'', ac)]"
    by blast
  define keep where "keep = notna_all frame"
  define MX where "MX = map (roll_max lib) ws"
  define MN where "MN = map (roll_min lib) ws"
  define Q75 where "Q75 = map (roll_quantile lib (3 / 4)) ws"
  define Q25 where "Q25 = map (roll_quantile lib (1 / 4)) ws"
  have len: "length MX = length ws" "length MN = length ws"
    "length Q75 = length ws" "length Q25 = length ws"
    by (simp_all add: MX_def MN_def Q75_def Q25_def)
  have n: "length ws = length (index_values (ff_index frame))"
    using rolling_length[OF ws] features_df_explicit(1)[OF fr] by simp
  have d: "distinct (map fst (ff_columns frame))" by (rule distinct_feature_keys[OF fr])
  have look: "map_of (ff_columns out) (column @ ''_'' @ s) = Some (select_mask v keep)"
    if "(s, v) \<in> set (stats_of lib data window_size column)" for s v
    unfolding out keep_def
    using dropna_lookup[OF d features_df_member[OF fr assms(2) that]] .
  have mx: "map_of (ff_columns out) (column @ ''_max'') = Some (select_mask MX keep)"
    using look[of "''max''" MX] by (simp add: stats MX_def)
  have mn: "map_of (ff_columns out) (column @ ''_min'') = Some (select_mask MN keep)"
    using look[of "''min''" MN] by (simp add: stats MN_def)
  have q75: "map_of (ff_columns out) (column @ ''_q75'') = Some (select_mask Q75 keep)"
    using look[of "''q75''" Q75] by (simp add: stats Q75_def)
  have q25: "map_of (ff_columns out) (column @ ''_q25'') = Some (select_mask Q25 keep)"
    using look[of "''q25''" Q25] by (simp add: stats Q25_def)
  have rng: "map_of (ff_columns out) (column @ ''_range'') =
               Some (select_mask (map2 (fsub lib) MX MN) keep)"
    using look[of "''range''" "map2 (fsub lib) MX MN"] by (simp add: stats MX_def MN_def)
  have iqr: "map_of (ff_columns out) (column @ ''_iqr'') =
               Some (select_mask (map2 (fsub lib) Q75 Q25) keep)"
    using look[of "''iqr''" "map2 (fsub lib) Q75 Q25"] by (simp add: stats Q75_def Q25_def)
  have "index_values (ff_index out) = select_mask (index_values (ff_index frame)) keep"
    unfolding out keep_def dropna_def Let_def by (simp add: index_values_select)
  then have k: "k < length (select_mask (index_values (ff_index frame)) keep)"
    using assms(3) by simp
  have kk: "k < length (select_mask MX keep)" "k < length (select_mask MN keep)"
    "k < length (select_mask Q75 keep)" "k < length (select_mask Q25 keep)"
    using k select_mask_length[of MX "index_values (ff_index frame)" keep]
      select_mask_length[of MN "index_values (ff_index frame)" keep]
      select_mask_length[of Q75 "index_values (ff_index frame)" keep]
      select_mask_length[of Q25 "index_values (ff_index frame)" keep]
      len n by simp_all
  have r1: "select_mask (map2 (fsub lib) MX MN) keep ! k =
          fsub lib (select_mask MX keep ! k) (select_mask MN keep ! k)"
    using select_mask_map2[of MX MN "fsub lib" keep] len nth_map2[OF kk(1) kk(2)] by simp
  have r2: "select_mask (map2 (fsub lib) Q75 Q25) keep ! k =
          fsub lib (select_mask Q75 keep ! k) (select_mask Q25 keep ! k)"
    using select_mask_map2[of Q75 Q25 "fsub lib" keep] len nth_map2[OF kk(3) kk(4)] by simp
  show ?thesis using rng mx mn iqr q75 q25 r1 r2 by blast
qed

theorem range_iqr_exact_witness:
  "extract_time_series_features exact_lib sample_data 4 = Inr sample_out \<and>
   ''eda'' \<in> set (numeric_labels sample_data) \<and>
   (0 :: nat) < length (index_values (ff_index sample_out)) \<and>
   map_of (ff_columns sample_out) ''eda_iqr'' = Some [Num (3 / 4)] \<and>
   map_of (ff_columns sample_out) ''eda_q75'' = Some [Num (9 / 2)] \<and>
   map_of (ff_columns sample_out) ''eda_q25'' = Some [Num (15 / 4)] \<and>
   (\<exists>rng mx mn iqr q75 q25.
           map_of (ff_columns sample_out) (''eda'' @ ''_range'') = Some rng \<and>
           map_of (ff_columns sample_out) (''eda'' @ ''_max'') = Some mx \<and>
           map_of (ff_columns sample_out) (''eda'' @ ''_min'') = Some mn \<and>
           map_of (ff_columns sample_out) (''eda'' @ ''_iqr'') = Some iqr \<and>
           map_of (ff_columns sample_out) (''eda'' @ ''_q75'') = Some q75 \<and>
           map_of (ff_columns sample_out) (''eda'' @ ''_q25'') = Some q25 \<and>
           rng ! 0 = fsub exact_lib (mx ! 0) (mn ! 0) \<and>
           iqr ! 0 = fsub exact_lib (q75 ! 0) (q25 ! 0))"
proof -
  have c: "''eda'' \<in> set (numeric_labels sample_data)" by code_simp
  have k: "(0 :: nat) < length (index_values (ff_index sample_out))"
    by (simp add: sample_out_def)
  have v: "map_of (ff_columns sample_out) ''eda_iqr'' = Some [Num (3 / 4)]"
    "map_of (ff_columns sample_out) ''eda_q75'' = Some [Num (9 / 2)]"
    "map_of (ff_columns sample_out) ''eda_q25'' = Some [Num (15 / 4)]"
    by (simp_all add: sample_out_def)
  show ?thesis
    using range_iqr_exact[OF sample_extract c k] sample_extract c k v by blast
qed




section \<open>Properties of the model fitter\<close>



text \<open>
  Claim C7. The forecast has \<^const>\<open>forecast_steps\<close> \<open>= 10\<close> steps, and for a series that is
  not time-indexed its x-coordinates are the positions \<^verbatim>\<open>len(series)\<close> to
  \<^verbatim>\<open>len(series) + 9\<close>, whatever the labels of the index are. On a series labelled 10 to
  19 the forecast is therefore placed at 10 to 19, on top of the data, not at 20 to 29:
  the numeric index is extended only when it is the default \<open>0, 1, \<dots>, n - 1\<close>.
\<close>

theorem forecast_index_positions:
  "forecast_index sliced_series forecast_steps = Inr [10, 11, 12, 13, 14, 15, 16, 17, 18, 19] \<and>
   index_values (s_index sliced_series) = [10, 11, 12, 13, 14, 15, 16, 17, 18, 19]"
  by code_simp

end
